theory Spec2Isabelle
  imports Main
begin

section \<open>Data model\<close>

text \<open>
  The fee-abstraction co-signer validates a transaction built by a third party and, when
  every check passes, signs it with the custody (fee payer) key. The embedding follows
  the TypeScript sources of \<^verbatim>\<open>packages/core/src\<close>: each exported function
  becomes a HOL function of the same name, each \<^verbatim>\<open>throw\<close> becomes an
  \<open>Inl\<close> result, and the objects the code mutates (the transaction, the cache) are
  passed in and returned.
\<close>

type_synonym bytes = "nat list"

text \<open>
  A public key is identified by its base-58 text; \<^verbatim>\<open>a.equals(b)\<close> is equality
  of keys.
\<close>

datatype PublicKey = PublicKey (toBase58: string)

text \<open>
  Three kinds of failure are kept apart: \<open>Error msg\<close> is
  \<^verbatim>\<open>throw new Error(msg)\<close> in the sources modelled here; \<open>TypeError\<close> is the
  runtime's failure on reading a property of \<^verbatim>\<open>undefined\<close> or
  \<^verbatim>\<open>null\<close>; \<open>LibraryError msg\<close> is a failure raised inside an external
  collaborator (the web3 and token libraries, the ledger client).
\<close>

datatype error = Error string | TypeError | LibraryError string

definition external :: "string + 'a \<Rightarrow> error + 'a" where
  "external r = (case r of Inl msg \<Rightarrow> Inl (LibraryError msg) | Inr v \<Rightarrow> Inr v)"

record Keypair =
  kp_publicKey :: PublicKey
  kp_secretKey :: bytes

text \<open>
  \<^verbatim>\<open>SignaturePubkeyPair\<close>: the signature is \<^verbatim>\<open>Buffer | null\<close>. The
  declared type of \<^verbatim>\<open>publicKey\<close> is \<^verbatim>\<open>PublicKey\<close>, but the code tests
  \<^verbatim>\<open>!signature.publicKey\<close> on the secondary slots, so an absent key is a value
  of the model (\<open>None\<close>).
\<close>

record SignaturePubkeyPair =
  signature :: "bytes option"
  publicKey :: "PublicKey option"

record AccountMeta =
  pubkey :: PublicKey
  isSigner :: bool
  isWritable :: bool

record TransactionInstruction =
  keys :: "AccountMeta list"
  programId :: PublicKey
  data :: bytes

record Transaction =
  signatures :: "SignaturePubkeyPair list"
  feePayer :: "PublicKey option"
  recentBlockhash :: "string option"
  instructions :: "TransactionInstruction list"

text \<open>
  A decoded token instruction (\<^verbatim>\<open>decodeInstruction\<close> of the token library):
  the two transfer variants carry their account references and data; every other
  instruction type is \<open>DecodedOther\<close>. The discriminators are the library's type
  guards.
\<close>

datatype DecodedInstruction =
    isTransferInstruction: DecodedTransfer
      (source: AccountMeta) (destination: AccountMeta) (owner: AccountMeta) (amount: int)
  | isTransferCheckedInstruction: DecodedTransferChecked
      (source: AccountMeta) (mintMeta: AccountMeta) (destination: AccountMeta)
      (owner: AccountMeta) (amount: int) (decimalsData: int)
  | isOtherInstruction: DecodedOther

text \<open>The state of a token account, as the ledger client reports it.\<close>

record Account =
  acc_mint :: PublicKey
  acc_owner :: PublicKey
  acc_amount :: int
  isFrozen :: bool

text \<open>
  Modelled from the spec: the class \<^verbatim>\<open>TokenFee\<close> of \<^verbatim>\<open>core/tokenFee\<close>
  is not among the sources; an allow-list entry holds the asset mint, the destination
  custody account, the decimal precision and the required fee amount.
\<close>

record TokenFee =
  mint :: PublicKey
  account :: PublicKey
  decimals :: int
  fee :: int

record SimulatedTransactionResponse =
  err :: "string option"
  unitsConsumed :: "nat option"

text \<open>
  The cache: \<^verbatim>\<open>get(key)\<close> is application, \<^verbatim>\<open>set(key, value)\<close> is map
  update. The code stores \<^verbatim>\<open>true\<close> and \<^verbatim>\<open>Date.now()\<close> readings;
  \<open>truthy\<close> and \<open>to_number\<close> are the language's conversions of such a value in a
  condition and in a subtraction.
\<close>

datatype cache_value = CBool bool | CNum int

type_synonym Cache = "string \<Rightarrow> cache_value option"

fun truthy :: "cache_value option \<Rightarrow> bool" where
  "truthy None = False"
| "truthy (Some (CBool b)) = b"
| "truthy (Some (CNum n)) = (n \<noteq> 0)"

fun to_number :: "cache_value option \<Rightarrow> int" where
  "to_number (Some (CBool b)) = (if b then 1 else 0)"
| "to_number (Some (CNum n)) = n"
| "to_number None = 0"

definition truthy_string :: "string option \<Rightarrow> bool" where
  "truthy_string s = (case s of None \<Rightarrow> False | Some t \<Rightarrow> t \<noteq> [])"

definition at_index :: "'a list \<Rightarrow> nat \<Rightarrow> 'a option" where
  "at_index xs i = (if i < length xs then Some (xs ! i) else None)"

section \<open>External collaborators\<close>

text \<open>
  The functions of the web3, token and base-58 libraries that the sources call, and the
  two published program identifiers, are parameters of the model. A library call that
  throws returns \<open>Inl\<close> with the library's message. \<open>serialize tx True\<close> is
  \<^verbatim>\<open>tx.serialize()\<close> and \<open>serialize tx False\<close> is
  \<^verbatim>\<open>tx.serialize({ requireAllSignatures: false })\<close>; \<open>partialSign\<close> returns
  the transaction with the signature attached. \<open>sha256\<close> is the hash helper of the core
  package.

  \<^verbatim>\<open>tx.serializeMessage()\<close> compiles the message, and compiling replaces
  \<^verbatim>\<open>tx.signatures\<close> when the slots do not match the signers the message
  requires. So the call has a value and an effect: \<open>serializeMessage lib tx\<close> is the
  pair of the message (or the failure) and the signature slots as the call leaves them.
\<close>

record Library =
  TOKEN_PROGRAM_ID :: PublicKey
  ASSOCIATED_TOKEN_PROGRAM_ID :: PublicKey
  serializeMessage :: "Transaction \<Rightarrow> (string + bytes) \<times> SignaturePubkeyPair list"
  partialSign :: "Transaction \<Rightarrow> Keypair \<Rightarrow> string + Transaction"
  serialize :: "Transaction \<Rightarrow> bool \<Rightarrow> string + bytes"
  Transaction_from :: "bytes \<Rightarrow> string + Transaction"
  sha256 :: "bytes \<Rightarrow> bytes"
  base58_encode :: "bytes \<Rightarrow> string"
  decodeInstruction :: "TransactionInstruction \<Rightarrow> string + DecodedInstruction"
  getAssociatedTokenAddress :: "PublicKey \<Rightarrow> PublicKey \<Rightarrow> string + PublicKey"
  createAssociatedTokenAccountInstruction ::
    "PublicKey \<Rightarrow> PublicKey \<Rightarrow> PublicKey \<Rightarrow> PublicKey \<Rightarrow> TransactionInstruction"

text \<open>
  The ledger client: the state of a token account (\<^verbatim>\<open>getAccount\<close>), whether an
  account exists (\<^verbatim>\<open>getAccountInfo\<close> returns an object or \<^verbatim>\<open>null\<close>), and
  the dry run of a transaction.
\<close>

record Connection =
  getAccount :: "PublicKey \<Rightarrow> string + Account"
  getAccountInfo :: "PublicKey \<Rightarrow> string + bool"
  simulateTransaction :: "Transaction \<Rightarrow> string + SimulatedTransactionResponse"

section \<open>Log context\<close>

text \<open>
  \<open>compiled lib tx\<close> is the transaction as a call of \<^verbatim>\<open>serializeMessage\<close>
  leaves it. \<^verbatim>\<open>TransactionLogger.extractTransactionContext\<close> calls
  \<^verbatim>\<open>serializeMessage\<close> inside a \<^verbatim>\<open>try\<close> whose \<^verbatim>\<open>catch\<close> is empty,
  and what it returns is only printed; so all that remains of it is that effect on the
  transaction. Every function of the sources that logs starts with this call. The log
  lines themselves print and do nothing else, and are not modelled.
\<close>

definition compiled :: "Library \<Rightarrow> Transaction \<Rightarrow> Transaction" where
  "compiled lib transaction = transaction\<lparr>signatures := snd (serializeMessage lib transaction)\<rparr>"

definition extractTransactionContext :: "Library \<Rightarrow> Transaction \<Rightarrow> Transaction" where
  "extractTransactionContext lib transaction = compiled lib transaction"

section \<open>Instruction security validator\<close>

text \<open>
  \<^verbatim>\<open>validateInstructions\<close>: the inner loop over one instruction's account
  references, the outer loop over the instructions. The function reads the instructions
  and the custody key only; the context extraction at its head changes the signature
  slots, which the function does not read, and is applied where the function is called.
\<close>

fun validateInstructions_keys :: "AccountMeta list \<Rightarrow> PublicKey \<Rightarrow> error + unit" where
  "validateInstructions_keys [] custody = Inr ()"
| "validateInstructions_keys (key # rest) custody =
     (if (isWritable key \<or> isSigner key) \<and> pubkey key = custody
      then Inl (Error ''invalid account'')
      else validateInstructions_keys rest custody)"

fun validateInstructions_loop :: "TransactionInstruction list \<Rightarrow> PublicKey \<Rightarrow> error + unit" where
  "validateInstructions_loop [] custody = Inr ()"
| "validateInstructions_loop (instruction # rest) custody =
     (case validateInstructions_keys (keys instruction) custody of
        Inl e \<Rightarrow> Inl e
      | Inr _ \<Rightarrow> validateInstructions_loop rest custody)"

definition validateInstructions :: "Transaction \<Rightarrow> Keypair \<Rightarrow> error + unit" where
  "validateInstructions transaction feePayerKey =
     validateInstructions_loop (instructions transaction) (kp_publicKey feePayerKey)"

text \<open>
  The custody key is referenced as writable or as a signer at some position \<open>j\<close> of
  the account list of some instruction \<open>i\<close>.
\<close>

definition custody_exposed :: "Transaction \<Rightarrow> PublicKey \<Rightarrow> bool" where
  "custody_exposed transaction custody =
     (\<exists>i \<in> {..<length (instructions transaction)}.
        \<exists>j \<in> {..<length (keys (instructions transaction ! i))}.
          (isWritable (keys (instructions transaction ! i) ! j)
             \<or> isSigner (keys (instructions transaction ! i) ! j))
          \<and> pubkey (keys (instructions transaction ! i) ! j) = custody)"

section \<open>Transaction envelope validator\<close>

text \<open>
  \<^verbatim>\<open>validateTransaction\<close>. The source file holds the function twice: once bare
  (\<open>validateTransaction_bare\<close>), and once with logging, which starts with the context
  extraction (\<open>validateTransaction\<close>, the one the orchestrators call). The parameters
  \<open>connection\<close> and \<open>lamportsPerSignature\<close> are kept as the source declares them. The
  result pairs the outcome with the transaction object as the call leaves it.
\<close>

record SignedTransaction =
  result_signature :: string
  rawTransaction :: bytes

text \<open>The loop over the secondary signature slots.\<close>

fun validateTransaction_secondary :: "SignaturePubkeyPair list \<Rightarrow> error + unit" where
  "validateTransaction_secondary [] = Inr ()"
| "validateTransaction_secondary (slot # rest) =
     (if publicKey slot = None then Inl (Error ''missing public key'')
      else if signature slot = None then Inl (Error ''missing signature'')
      else validateTransaction_secondary rest)"

text \<open>The getter \<^verbatim>\<open>transaction.signature\<close>: the first slot's signature, if any.\<close>

definition transaction_signature :: "Transaction \<Rightarrow> bytes option" where
  "transaction_signature transaction =
     (case signatures transaction of [] \<Rightarrow> None | primary # _ \<Rightarrow> signature primary)"

text \<open>
  The statements after the checks, the same in both versions: sign, serialize, encode the
  primary signature (the base-58 encoder throws a type error on \<^verbatim>\<open>null\<close>). When
  \<^verbatim>\<open>serialize\<close> throws, the signature attached by the step before stays on
  the transaction.
\<close>

definition validateTransaction_sign ::
  "Library \<Rightarrow> Transaction \<Rightarrow> Keypair \<Rightarrow> (error + SignedTransaction) \<times> Transaction" where
  "validateTransaction_sign lib transaction feePayerKey =
     (case external (partialSign lib transaction feePayerKey) of
        Inl e \<Rightarrow> (Inl e, transaction)
      | Inr signed \<Rightarrow>
          (case external (serialize lib signed True) of
             Inl e \<Rightarrow> (Inl e, signed)
           | Inr raw \<Rightarrow>
               (case transaction_signature signed of
                  None \<Rightarrow> (Inl TypeError, signed)
                | Some sig \<Rightarrow>
                    (Inr \<lparr>result_signature = base58_encode lib sig, rawTransaction = raw\<rparr>,
                     signed))))"

text \<open>The bare version.\<close>

definition validateTransaction_bare ::
  "Library \<Rightarrow> Connection \<Rightarrow> Transaction \<Rightarrow> Keypair \<Rightarrow> int \<Rightarrow> int
     \<Rightarrow> (error + SignedTransaction) \<times> Transaction" where
  "validateTransaction_bare lib connection transaction feePayerKey maxSignatures
      lamportsPerSignature =
     (if feePayer transaction \<noteq> Some (kp_publicKey feePayerKey)
        then (Inl (Error ''invalid fee payer''), transaction)
      else if \<not> truthy_string (recentBlockhash transaction)
        then (Inl (Error ''missing recent blockhash''), transaction)
      else if length (signatures transaction) = 0
        then (Inl (Error ''no signatures''), transaction)
      else if int (length (signatures transaction)) > maxSignatures
        then (Inl (Error ''too many signatures''), transaction)
      else
        (case signatures transaction of
           [] \<Rightarrow> (Inl TypeError, transaction)
         | primary # secondary \<Rightarrow>
             (case publicKey primary of
                None \<Rightarrow> (Inl TypeError, transaction)
              | Some primaryKey \<Rightarrow>
                  if primaryKey \<noteq> kp_publicKey feePayerKey
                    then (Inl (Error ''invalid fee payer pubkey''), transaction)
                  else if signature primary \<noteq> None
                    then (Inl (Error ''invalid fee payer signature''), transaction)
                  else
                    (case validateTransaction_secondary secondary of
                       Inl e \<Rightarrow> (Inl e, transaction)
                     | Inr _ \<Rightarrow> validateTransaction_sign lib transaction feePayerKey))))"

text \<open>
  The version with logging: the context extraction, then the same statements on the
  transaction as the extraction leaves it.
\<close>

definition validateTransaction ::
  "Library \<Rightarrow> Connection \<Rightarrow> Transaction \<Rightarrow> Keypair \<Rightarrow> int \<Rightarrow> int
     \<Rightarrow> (error + SignedTransaction) \<times> Transaction" where
  "validateTransaction lib connection received feePayerKey maxSignatures lamportsPerSignature =
     (let transaction = extractTransactionContext lib received in
      if feePayer transaction \<noteq> Some (kp_publicKey feePayerKey)
        then (Inl (Error ''invalid fee payer''), transaction)
      else if \<not> truthy_string (recentBlockhash transaction)
        then (Inl (Error ''missing recent blockhash''), transaction)
      else if length (signatures transaction) = 0
        then (Inl (Error ''no signatures''), transaction)
      else if int (length (signatures transaction)) > maxSignatures
        then (Inl (Error ''too many signatures''), transaction)
      else
        (case signatures transaction of
           [] \<Rightarrow> (Inl TypeError, transaction)
         | primary # secondary \<Rightarrow>
             (case publicKey primary of
                None \<Rightarrow> (Inl TypeError, transaction)
              | Some primaryKey \<Rightarrow>
                  if primaryKey \<noteq> kp_publicKey feePayerKey
                    then (Inl (Error ''invalid fee payer pubkey''), transaction)
                  else if signature primary \<noteq> None
                    then (Inl (Error ''invalid fee payer signature''), transaction)
                  else
                    (case validateTransaction_secondary secondary of
                       Inl e \<Rightarrow> (Inl e, transaction)
                     | Inr _ \<Rightarrow> validateTransaction_sign lib transaction feePayerKey))))"

section \<open>Transfer validator\<close>

text \<open>
  \<^verbatim>\<open>validateTransfer\<close>, in two parts. \<open>validateTransfer_decoded\<close> holds the
  statements that follow the decoding, from the fetch of the source account on.
  \<^verbatim>\<open>transaction.signatures[1]\<close> is \<^verbatim>\<open>undefined\<close> when there are fewer
  than two slots, and reading its \<^verbatim>\<open>publicKey\<close> is then a type error; so is
  comparing the owner with an absent key (\<^verbatim>\<open>equals\<close> reads a field of its
  argument).
\<close>

definition validateTransfer_decoded ::
  "Library \<Rightarrow> Connection \<Rightarrow> Transaction \<Rightarrow> TokenFee list \<Rightarrow> DecodedInstruction
     \<Rightarrow> error + DecodedInstruction" where
  "validateTransfer_decoded lib connection transaction allowedTokens instruction =
      (case external (getAccount connection (pubkey (source instruction))) of
        Inl e \<Rightarrow> Inl e
      | Inr acc \<Rightarrow>
      if acc_owner acc \<noteq> pubkey (owner instruction) then Inl (Error ''source invalid owner'')
      else if isFrozen acc then Inl (Error ''source frozen'')
      else if acc_amount acc < amount instruction then Inl (Error ''source insufficient balance'')
      else
      (case find (\<lambda>token. mint token = acc_mint acc) allowedTokens of
        None \<Rightarrow> Inl (Error ''invalid token'')
      | Some token \<Rightarrow>
      if amount instruction < fee token then Inl (Error ''invalid amount'')
      else if isSigner (source instruction) then Inl (Error ''source is signer'')
      else if pubkey (destination instruction) \<noteq> account token
        then Inl (Error ''invalid destination'')
      else if \<not> isWritable (destination instruction)
        then Inl (Error ''destination not writable'')
      else if isSigner (destination instruction) then Inl (Error ''destination is signer'')
      else
      (case at_index (signatures transaction) 1 of
        None \<Rightarrow> Inl TypeError
      | Some second \<Rightarrow>
      (case publicKey second of
        None \<Rightarrow> Inl TypeError
      | Some secondKey \<Rightarrow>
      if pubkey (owner instruction) \<noteq> secondKey then Inl (Error ''owner missing signature'')
      else if isWritable (owner instruction) then Inl (Error ''owner is writable'')
      else if \<not> isSigner (owner instruction) then Inl (Error ''owner not signer'')
      else if isTransferCheckedInstruction instruction then
        (if decimalsData instruction \<noteq> decimals token then Inl (Error ''invalid decimals'')
         else if pubkey (mintMeta instruction) \<noteq> mint token then Inl (Error ''invalid mint'')
         else if isWritable (mintMeta instruction) then Inl (Error ''mint is writable'')
         else if isSigner (mintMeta instruction) then Inl (Error ''mint is signer'')
         else Inr instruction)
      else Inr instruction))))"

text \<open>
  The head of the function: the context extraction, the search for the first instruction
  of the token program, its decoding, and the test of the decoded variant. The function
  leaves the transaction as the context extraction leaves it.
\<close>

definition validateTransfer ::
  "Library \<Rightarrow> Connection \<Rightarrow> Transaction \<Rightarrow> TokenFee list \<Rightarrow> error + DecodedInstruction" where
  "validateTransfer lib connection received allowedTokens =
     (let transaction = extractTransactionContext lib received in
      (case find (\<lambda>ix. programId ix = TOKEN_PROGRAM_ID lib) (instructions transaction) of
        None \<Rightarrow> Inl (Error ''missing token instruction'')
      | Some tokenInstruction \<Rightarrow>
      (case external (decodeInstruction lib tokenInstruction) of
        Inl e \<Rightarrow> Inl e
      | Inr instruction \<Rightarrow>
      if \<not> (isTransferInstruction instruction \<or> isTransferCheckedInstruction instruction)
        then Inl (Error ''invalid instruction'')
      else validateTransfer_decoded lib connection transaction allowedTokens instruction)))"

section \<open>Account-initialization validator\<close>

text \<open>
  Modelled from the spec: \<^verbatim>\<open>areInstructionsEqual\<close> of
  \<^verbatim>\<open>core/instructions\<close> is not among the sources; two instructions are equal
  when they agree in program id, account list (role flags and order included) and data.
\<close>

definition areInstructionsEqual :: "TransactionInstruction \<Rightarrow> TransactionInstruction \<Rightarrow> bool" where
  "areInstructionsEqual a b =
     (programId a = programId b \<and> keys a = keys b \<and> data a = data b)"

text \<open>A template literal renders an absent blockhash as the text \<^verbatim>\<open>undefined\<close>.\<close>

definition template_text :: "string option \<Rightarrow> string" where
  "template_text s = (case s of None \<Rightarrow> ''undefined'' | Some t \<Rightarrow> t)"

definition account_cache_key :: "string option \<Rightarrow> PublicKey \<Rightarrow> string" where
  "account_cache_key blockhash associatedToken =
     ''account/'' @ template_text blockhash @ ''_'' @ toBase58 associatedToken"

text \<open>
  \<^verbatim>\<open>validateAccountInitializationInstructions\<close>. The destructuring
  \<^verbatim>\<open>[, , ownerMeta, mintMeta] = instruction.keys\<close> leaves
  \<^verbatim>\<open>mintMeta\<close> undefined when the instruction has fewer than four account
  references; reading its key is then a type error. The result pairs the outcome with
  the cache as the call leaves it; the transaction it received is left as the context
  extraction leaves it.
\<close>

definition validateAccountInitializationInstructions ::
  "Library \<Rightarrow> Connection \<Rightarrow> Transaction \<Rightarrow> Keypair \<Rightarrow> Cache \<Rightarrow> (error + unit) \<times> Cache" where
  "validateAccountInitializationInstructions lib connection received feePayerKey cache =
     (let originalTransaction = extractTransactionContext lib received in
      case external (serialize lib originalTransaction False) of
        Inl e \<Rightarrow> (Inl e, cache)
      | Inr raw \<Rightarrow>
      (case external (Transaction_from lib raw) of
        Inl e \<Rightarrow> (Inl e, cache)
      | Inr transaction \<Rightarrow>
      if length (instructions transaction) \<noteq> 2
        then (Inl (Error ''transaction should contain 2 instructions: fee payment, account init''),
              cache)
      else
      (let instruction = instructions transaction ! 1 in
      if programId instruction \<noteq> ASSOCIATED_TOKEN_PROGRAM_ID lib
        then (Inl (Error ''account instruction should call associated token program''), cache)
      else
      (case at_index (keys instruction) 3 of
        None \<Rightarrow> (Inl TypeError, cache)
      | Some mintM \<Rightarrow>
      (let ownerM = keys instruction ! 2 in
      (case external (getAssociatedTokenAddress lib (pubkey mintM) (pubkey ownerM)) of
        Inl e \<Rightarrow> (Inl e, cache)
      | Inr associatedToken \<Rightarrow>
      (case external (getAccountInfo connection associatedToken) of
        Inl e \<Rightarrow> (Inl e, cache)
      | Inr present \<Rightarrow>
      if present then (Inl (Error ''account already exists''), cache)
      else
      (let referenceInstruction =
             createAssociatedTokenAccountInstruction lib (kp_publicKey feePayerKey)
               associatedToken (pubkey ownerM) (pubkey mintM) in
      if \<not> areInstructionsEqual referenceInstruction instruction
        then (Inl (Error ''unable to match associated account instruction''), cache)
      else
      (let cacheKey = account_cache_key (recentBlockhash transaction) associatedToken in
      if truthy (cache cacheKey)
        then (Inl (Error ''duplicate account within same recent blockhash''), cache)
      else (Inr (), cache(cacheKey \<mapsto> CBool True)))))))))))"

section \<open>Simulation gate\<close>

definition truthy_err :: "string option \<Rightarrow> bool" where
  "truthy_err e = (case e of None \<Rightarrow> False | Some t \<Rightarrow> t \<noteq> [])"

definition simulateRawTransaction ::
  "Library \<Rightarrow> Connection \<Rightarrow> bytes \<Rightarrow> error + SimulatedTransactionResponse" where
  "simulateRawTransaction lib connection raw =
     (case external (Transaction_from lib raw) of
        Inl e \<Rightarrow> Inl e
      | Inr transaction \<Rightarrow>
          (case external (simulateTransaction connection transaction) of
             Inl e \<Rightarrow> Inl e
           | Inr simulated \<Rightarrow>
               if truthy_err (err simulated) then Inl (Error ''Simulation error'')
               else Inr simulated))"

section \<open>Signing orchestrators\<close>

text \<open>
  The two readings of \<^verbatim>\<open>Date.now()\<close> that the result depends on: the one in
  the cooldown comparison and the one stored in the cache.
\<close>

record Clock =
  now_check :: int
  now_set :: int

text \<open>The cache keys of the two orchestrators, as the template literals build them.\<close>

definition transaction_cache_key :: "Library \<Rightarrow> bytes \<Rightarrow> string" where
  "transaction_cache_key lib message = ''transaction/'' @ base58_encode lib (sha256 lib message)"

definition transfer_cache_key :: "PublicKey \<Rightarrow> string" where
  "transfer_cache_key sourceKey = ''transfer/lastSignature/'' @ toBase58 sourceKey"

definition createAccount_cache_key :: "PublicKey \<Rightarrow> string" where
  "createAccount_cache_key sourceKey = ''createAccount/lastSignature/'' @ toBase58 sourceKey"

definition default_timeout :: "int option \<Rightarrow> int" where
  "default_timeout sameSourceTimeout = (case sameSourceTimeout of None \<Rightarrow> 5000 | Some t \<Rightarrow> t)"

text \<open>
  \<^verbatim>\<open>signWithTokenFee\<close>. The journey tracker only logs and rethrows. The
  transaction object is shared by all the calls, so the slots each call of
  \<^verbatim>\<open>serializeMessage\<close> leaves are what the next statement sees: after the
  context extraction at the head, after the call that yields the dedup message, after
  \<^verbatim>\<open>validateTransaction\<close>, after the context extraction at the head of
  \<^verbatim>\<open>validateInstructions\<close>, and after \<^verbatim>\<open>validateTransfer\<close>. The
  result is the outcome, the cache and the transaction object as the call leaves them;
  the optional last parameter is absent (\<open>None\<close>) or given.
\<close>

definition signWithTokenFee ::
  "Library \<Rightarrow> Connection \<Rightarrow> Clock \<Rightarrow> Transaction \<Rightarrow> Keypair \<Rightarrow> int \<Rightarrow> int \<Rightarrow> TokenFee list
     \<Rightarrow> Cache \<Rightarrow> int option \<Rightarrow> (error + string) \<times> Cache \<times> Transaction" where
  "signWithTokenFee lib connection clock received feePayerKey maxSignatures
      lamportsPerSignature allowedTokens cache sameSourceTimeout =
     (let extracted = extractTransactionContext lib received;
          transaction = compiled lib extracted in
      case external (fst (serializeMessage lib extracted)) of
        Inl e \<Rightarrow> (Inl e, cache, transaction)
      | Inr message \<Rightarrow>
      (let key = transaction_cache_key lib message in
      if truthy (cache key) then (Inl (Error ''duplicate transaction''), cache, transaction)
      else
      (let cache1 = cache(key \<mapsto> CBool True) in
      (case validateTransaction lib connection transaction feePayerKey maxSignatures
              lamportsPerSignature of
        (Inl e, signed) \<Rightarrow> (Inl e, cache1, signed)
      | (Inr validated, signed) \<Rightarrow>
      (let secured = extractTransactionContext lib signed in
      (case validateInstructions signed feePayerKey of
        Inl e \<Rightarrow> (Inl e, cache1, secured)
      | Inr _ \<Rightarrow>
      (let final = extractTransactionContext lib secured in
      (case validateTransfer lib connection secured allowedTokens of
        Inl e \<Rightarrow> (Inl e, cache1, final)
      | Inr transfer \<Rightarrow>
      (let key2 = transfer_cache_key (pubkey (source transfer));
           lastSignature = cache1 key2 in
      if truthy lastSignature
           \<and> now_check clock - to_number lastSignature < default_timeout sameSourceTimeout
        then (Inl (Error ''duplicate transfer''), cache1, final)
      else
      (let cache2 = cache1(key2 \<mapsto> CNum (now_set clock)) in
      (case simulateRawTransaction lib connection (rawTransaction validated) of
        Inl e \<Rightarrow> (Inl e, cache2, final)
      | Inr _ \<Rightarrow> (Inr (result_signature validated), cache2, final))))))))))))"

text \<open>
  \<^verbatim>\<open>createAccountIfTokenFeePaid\<close>: the same sequence with the
  account-initialization validator in the place of the instruction security validator.
\<close>

definition createAccountIfTokenFeePaid ::
  "Library \<Rightarrow> Connection \<Rightarrow> Clock \<Rightarrow> Transaction \<Rightarrow> Keypair \<Rightarrow> int \<Rightarrow> int \<Rightarrow> TokenFee list
     \<Rightarrow> Cache \<Rightarrow> int option \<Rightarrow> (error + string) \<times> Cache \<times> Transaction" where
  "createAccountIfTokenFeePaid lib connection clock received feePayerKey maxSignatures
      lamportsPerSignature allowedTokens cache sameSourceTimeout =
     (let extracted = extractTransactionContext lib received;
          transaction = compiled lib extracted in
      case external (fst (serializeMessage lib extracted)) of
        Inl e \<Rightarrow> (Inl e, cache, transaction)
      | Inr message \<Rightarrow>
      (let key = transaction_cache_key lib message in
      if truthy (cache key) then (Inl (Error ''duplicate transaction''), cache, transaction)
      else
      (let cache1 = cache(key \<mapsto> CBool True) in
      (case validateTransaction lib connection transaction feePayerKey maxSignatures
              lamportsPerSignature of
        (Inl e, signed) \<Rightarrow> (Inl e, cache1, signed)
      | (Inr validated, signed) \<Rightarrow>
      (let initialized = extractTransactionContext lib signed in
      (case validateAccountInitializationInstructions lib connection signed feePayerKey cache1 of
        (Inl e, cache2) \<Rightarrow> (Inl e, cache2, initialized)
      | (Inr _, cache2) \<Rightarrow>
      (let final = extractTransactionContext lib initialized in
      (case validateTransfer lib connection initialized allowedTokens of
        Inl e \<Rightarrow> (Inl e, cache2, final)
      | Inr transfer \<Rightarrow>
      (let key2 = createAccount_cache_key (pubkey (source transfer));
           lastSignature = cache2 key2 in
      if truthy lastSignature
           \<and> now_check clock - to_number lastSignature < default_timeout sameSourceTimeout
        then (Inl (Error ''duplicate transfer''), cache2, final)
      else
      (let cache3 = cache2(key2 \<mapsto> CNum (now_set clock)) in
      (case simulateRawTransaction lib connection (rawTransaction validated) of
        Inl e \<Rightarrow> (Inl e, cache3, final)
      | Inr _ \<Rightarrow> (Inr (result_signature validated), cache3, final))))))))))))"

section \<open>Sample inputs\<close>

text \<open>Concrete keys, instructions and transactions at which the theorems are instantiated.\<close>

definition custodyKey :: Keypair where
  "custodyKey = \<lparr>kp_publicKey = PublicKey ''Custody'', kp_secretKey = [7, 7, 7]\<rparr>"

definition meta :: "string \<Rightarrow> bool \<Rightarrow> bool \<Rightarrow> AccountMeta" where
  "meta name signer writable = \<lparr>pubkey = PublicKey name, isSigner = signer, isWritable = writable\<rparr>"

definition plainTransaction :: "TransactionInstruction list \<Rightarrow> Transaction" where
  "plainTransaction ixs =
     \<lparr>signatures = [\<lparr>signature = None, publicKey = Some (PublicKey ''Custody'')\<rparr>,
                    \<lparr>signature = Some [1, 2], publicKey = Some (PublicKey ''Owner'')\<rparr>],
      feePayer = Some (PublicKey ''Custody''),
      recentBlockhash = Some ''Blockhash1'',
      instructions = ixs\<rparr>"

definition memoInstruction :: "AccountMeta list \<Rightarrow> TransactionInstruction" where
  "memoInstruction ks = \<lparr>keys = ks, programId = PublicKey ''Memo'', data = [0]\<rparr>"

text \<open>The custody key as a writable, non-signer reference in the second instruction.\<close>

definition tx_writable_only :: Transaction where
  "tx_writable_only =
     plainTransaction [memoInstruction [meta ''Owner'' True False],
                       memoInstruction [meta ''Other'' False True, meta ''Custody'' False True]]"

text \<open>The custody key as a signer, non-writable reference.\<close>

definition tx_signer_only :: Transaction where
  "tx_signer_only = plainTransaction [memoInstruction [meta ''Custody'' True False]]"

text \<open>The custody key referenced read-only.\<close>

definition tx_harmless :: Transaction where
  "tx_harmless =
     plainTransaction [memoInstruction [meta ''Owner'' True True, meta ''Custody'' False False]]"

text \<open>
  A stub of the libraries. \<open>sampleCompile\<close> follows the library's compilation for
  transactions with at most one signer besides the fee payer (with more, the library's
  order of the signers is not reproduced): it fails, and leaves the slots alone, on a
  missing blockhash, a missing fee payer, or a slot whose key is absent or is no account
  of the transaction; otherwise the required signers are the fee payer and then the keys
  that an instruction marks as signer or that a slot names, the message is the length of
  the blockhash text and the instruction count, and slots that do not list exactly the
  required signers are replaced by one unsigned slot per required signer. Signing fills
  slot 0, the token decoder reads the instruction type from the first data byte (3 is
  Transfer, 12 is TransferChecked), and the raw form of a transaction is read back as
  \<open>reparsed\<close>.
\<close>

definition sampleSigners :: "Transaction \<Rightarrow> PublicKey \<Rightarrow> PublicKey list" where
  "sampleSigners transaction payer =
     (let metas = concat (map keys (instructions transaction));
          named = map publicKey (signatures transaction)
      in payer # remdups (filter (\<lambda>k. k \<noteq> payer
                                 \<and> (list_ex (\<lambda>m. pubkey m = k \<and> isSigner m) metas
                                      \<or> Some k \<in> set named))
                          (map pubkey metas @ map programId (instructions transaction))))"

definition sampleCompile :: "Transaction \<Rightarrow> (string + bytes) \<times> SignaturePubkeyPair list" where
  "sampleCompile transaction =
     (if \<not> truthy_string (recentBlockhash transaction)
        then (Inl ''Transaction recentBlockhash required'', signatures transaction)
      else
        (case (case feePayer transaction of
                 Some k \<Rightarrow> Some k
               | None \<Rightarrow> (case signatures transaction of [] \<Rightarrow> None | s # _ \<Rightarrow> publicKey s)) of
           None \<Rightarrow> (Inl ''Transaction fee payer required'', signatures transaction)
         | Some payer \<Rightarrow>
             if list_ex (\<lambda>slot. case publicKey slot of
                                  None \<Rightarrow> True
                                | Some k \<Rightarrow> k \<notin> set (payer
                                    # map pubkey (concat (map keys (instructions transaction)))
                                    @ map programId (instructions transaction)))
                  (signatures transaction)
               then (Inl ''unknown signer'', signatures transaction)
             else
               (Inr [length (template_text (recentBlockhash transaction)),
                     length (instructions transaction)],
                if map publicKey (signatures transaction)
                     = map Some (sampleSigners transaction payer)
                then signatures transaction
                else map (\<lambda>k. \<lparr>signature = None, publicKey = Some k\<rparr>)
                       (sampleSigners transaction payer))))"

definition sampleDecode :: "TransactionInstruction \<Rightarrow> string + DecodedInstruction" where
  "sampleDecode ix =
     (case data ix of
        [t, a] \<Rightarrow>
          (case keys ix of
             [s, d, w] \<Rightarrow> if t = 3 then Inr (DecodedTransfer s d w (int a))
                          else Inl ''unknown instruction type''
           | _ \<Rightarrow> Inl ''invalid instruction keys'')
      | [t, a, p] \<Rightarrow>
          (case keys ix of
             [s, m, d, w] \<Rightarrow> if t = 12 then Inr (DecodedTransferChecked s m d w (int a) (int p))
                             else Inl ''unknown instruction type''
           | _ \<Rightarrow> Inl ''invalid instruction keys'')
      | _ \<Rightarrow> Inl ''unknown instruction type'')"

definition sampleSign :: "Transaction \<Rightarrow> Keypair \<Rightarrow> string + Transaction" where
  "sampleSign transaction signer =
     (case signatures transaction of
        [] \<Rightarrow> Inl ''unknown signer''
      | primary # rest \<Rightarrow>
          if publicKey primary = Some (kp_publicKey signer)
          then Inr (transaction\<lparr>signatures := primary\<lparr>signature := Some (kp_secretKey signer)\<rparr> # rest\<rparr>)
          else Inl ''unknown signer'')"

definition sampleLibrary :: "Transaction \<Rightarrow> Library" where
  "sampleLibrary reparsed =
     \<lparr>TOKEN_PROGRAM_ID = PublicKey ''TokenProgram'',
      ASSOCIATED_TOKEN_PROGRAM_ID = PublicKey ''AssociatedTokenProgram'',
      serializeMessage = sampleCompile,
      partialSign = sampleSign,
      serialize = (\<lambda>transaction requireAllSignatures.
        if requireAllSignatures \<and> list_ex (\<lambda>slot. signature slot = None) (signatures transaction)
        then Inl ''Signature verification failed''
        else Inr [length (signatures transaction), length (instructions transaction)]),
      Transaction_from = (\<lambda>raw. Inr reparsed),
      sha256 = (\<lambda>message. rev message),
      base58_encode = (\<lambda>bs. replicate (length bs) CHR ''z''),
      decodeInstruction = sampleDecode,
      getAssociatedTokenAddress = (\<lambda>mintKey ownerKey.
        Inr (PublicKey (toBase58 ownerKey @ ''+'' @ toBase58 mintKey))),
      createAssociatedTokenAccountInstruction = (\<lambda>payer associatedToken ownerKey mintKey.
        \<lparr>keys = [\<lparr>pubkey = payer, isSigner = True, isWritable = True\<rparr>,
                 \<lparr>pubkey = associatedToken, isSigner = False, isWritable = True\<rparr>,
                 \<lparr>pubkey = ownerKey, isSigner = False, isWritable = False\<rparr>,
                 \<lparr>pubkey = mintKey, isSigner = False, isWritable = False\<rparr>],
         programId = PublicKey ''AssociatedTokenProgram'',
         data = []\<rparr>)\<rparr>"

text \<open>
  A stub of the ledger: one token account \<open>Source\<close> of owner \<open>Owner\<close> holding 1000
  units of \<open>Mint\<close>; the associated token account of \<open>Holder\<close> exists, no other
  does; every simulation succeeds.
\<close>

definition sampleConnection :: Connection where
  "sampleConnection =
     \<lparr>getAccount = (\<lambda>address.
        if address = PublicKey ''Source''
        then Inr \<lparr>acc_mint = PublicKey ''Mint'', acc_owner = PublicKey ''Owner'',
                  acc_amount = 1000, isFrozen = False\<rparr>
        else Inl ''TokenAccountNotFoundError''),
      getAccountInfo = (\<lambda>address. Inr (address = PublicKey ''Holder+Mint'')),
      simulateTransaction = (\<lambda>transaction. Inr \<lparr>err = None, unitsConsumed = Some 5000\<rparr>)\<rparr>"

text \<open>A transaction whose third slot carries a key and no signature.\<close>

definition tx_unsigned_secondary :: Transaction where
  "tx_unsigned_secondary =
     \<lparr>signatures = [\<lparr>signature = None, publicKey = Some (PublicKey ''Custody'')\<rparr>,
                    \<lparr>signature = Some [1, 2], publicKey = Some (PublicKey ''Owner'')\<rparr>,
                    \<lparr>signature = None, publicKey = Some (PublicKey ''Third'')\<rparr>],
      feePayer = Some (PublicKey ''Custody''),
      recentBlockhash = Some ''Blockhash1'',
      instructions = []\<rparr>"

text \<open>
  A fee transfer of \<open>n\<close> units from \<open>Source\<close> to the custody token account, placed
  between a memo instruction and a second token transfer of 1 unit; the allow-list asks a
  fee of 100 for \<open>Mint\<close>.
\<close>

definition transferInstruction :: "nat \<Rightarrow> TransactionInstruction" where
  "transferInstruction n =
     \<lparr>keys = [meta ''Source'' False True, meta ''FeeAccount'' False True,
              meta ''Owner'' True False],
      programId = PublicKey ''TokenProgram'',
      data = [3, n]\<rparr>"

definition sampleTokens :: "TokenFee list" where
  "sampleTokens =
     [\<lparr>mint = PublicKey ''Mint'', account = PublicKey ''FeeAccount'', decimals = 6, fee = 100\<rparr>]"

definition tx_transfer :: "nat \<Rightarrow> Transaction" where
  "tx_transfer n =
     plainTransaction [memoInstruction [meta ''Owner'' True False], transferInstruction n,
                       transferInstruction 1]"


text \<open>The same transfer co-signed by a key that is not the authority.\<close>

definition tx_other_signer :: Transaction where
  "tx_other_signer =
     (tx_transfer 100)\<lparr>signatures :=
        [\<lparr>signature = None, publicKey = Some (PublicKey ''Custody'')\<rparr>,
         \<lparr>signature = Some [1, 2], publicKey = Some (PublicKey ''Stranger'')\<rparr>]\<rparr>"

text \<open>
  An account-creation transaction: the fee transfer, then the creation of the associated
  token account of \<open>ownerName\<close> for \<open>Mint\<close>, paid by the custody key.
\<close>

definition createInstruction :: "string \<Rightarrow> TransactionInstruction" where
  "createInstruction ownerName =
     \<lparr>keys = [meta ''Custody'' True True, meta (ownerName @ ''+Mint'') False True,
              meta ownerName False False, meta ''Mint'' False False],
      programId = PublicKey ''AssociatedTokenProgram'',
      data = []\<rparr>"

definition tx_create :: "string \<Rightarrow> Transaction" where
  "tx_create ownerName = plainTransaction [transferInstruction 100, createInstruction ownerName]"




definition sampleTransfer :: DecodedInstruction where
  "sampleTransfer =
     DecodedTransfer (meta ''Source'' False True) (meta ''FeeAccount'' False True)
       (meta ''Owner'' True False) 100"




definition slots_unsigned :: "SignaturePubkeyPair list" where
  "slots_unsigned =
     [\<lparr>signature = None, publicKey = Some (PublicKey ''Custody'')\<rparr>,
      \<lparr>signature = None, publicKey = Some (PublicKey ''Owner'')\<rparr>]"

text \<open>A transaction with no signature slot at all, whose only required signer is the custody key.\<close>

definition tx_no_slots :: Transaction where
  "tx_no_slots =
     \<lparr>signatures = [],
      feePayer = Some (PublicKey ''Custody''),
      recentBlockhash = Some ''Blockhash1'',
      instructions = [memoInstruction [meta ''Other'' False True]]\<rparr>"







section \<open>The envelope checks as the specification lists them\<close>

text \<open>
  The five checks of the transaction envelope validator in their stated order, each
  paired with the name of the error that reports its failure: (1) the declared fee payer
  is the custody key; (2) a recent blockhash is present; (3) there is a signature slot,
  and the slots are no more than the maximum; (4) slot 0 carries the custody key and no
  signature; (5) every remaining slot carries a public key and a signature.
  \<open>first_failure\<close> is the name attached to the first check of the list that does not
  hold. Within check (5) the slots are taken in order, each slot's key before its
  signature. A slot's signature is empty when it is absent (\<^verbatim>\<open>null\<close>), and a blockhash
  is present when the condition \<^verbatim>\<open>!transaction.recentBlockhash\<close> is false.
\<close>

definition slot_checks :: "SignaturePubkeyPair \<Rightarrow> (bool \<times> string) list" where
  "slot_checks slot =
     [(publicKey slot \<noteq> None, ''missing public key''),
      (signature slot \<noteq> None, ''missing signature'')]"

definition envelope_checks :: "Transaction \<Rightarrow> Keypair \<Rightarrow> int \<Rightarrow> (bool \<times> string) list" where
  "envelope_checks transaction feePayerKey maxSignatures =
     [(feePayer transaction = Some (kp_publicKey feePayerKey), ''invalid fee payer''),
      (truthy_string (recentBlockhash transaction), ''missing recent blockhash''),
      (signatures transaction \<noteq> [], ''no signatures''),
      (int (length (signatures transaction)) \<le> maxSignatures, ''too many signatures''),
      (map publicKey (take 1 (signatures transaction)) = [Some (kp_publicKey feePayerKey)],
         ''invalid fee payer pubkey''),
      (map signature (take 1 (signatures transaction)) = [None],
         ''invalid fee payer signature'')]
     @ concat (map slot_checks (drop 1 (signatures transaction)))"

fun first_failure :: "(bool \<times> string) list \<Rightarrow> string option" where
  "first_failure [] = None"
| "first_failure ((holds, name) # rest) = (if holds then first_failure rest else Some name)"



section \<open>Stages of the transfer validator\<close>

text \<open>
  The conditions under which \<open>validateTransfer\<close> gets past its early steps, named so
  that a property of a later check can say which checks came before it. \<open>decodes_to\<close>:
  the first token-program instruction decodes to the transfer \<open>d\<close>.
  \<open>source_account_ok\<close>: the ledger reports the source account, its owner is the
  instruction's authority, it is not frozen and holds the amount. \<open>matched_token\<close>: the
  allow-list entry matched by the account's mint.
\<close>

definition decodes_to :: "Library \<Rightarrow> Transaction \<Rightarrow> DecodedInstruction \<Rightarrow> bool" where
  "decodes_to lib transaction d =
     (case find (\<lambda>ix. programId ix = TOKEN_PROGRAM_ID lib) (instructions transaction) of
        None \<Rightarrow> False
      | Some ix \<Rightarrow> decodeInstruction lib ix = Inr d
                   \<and> (isTransferInstruction d \<or> isTransferCheckedInstruction d))"

definition source_account_ok :: "Connection \<Rightarrow> DecodedInstruction \<Rightarrow> Account \<Rightarrow> bool" where
  "source_account_ok connection d acc =
     (getAccount connection (pubkey (source d)) = Inr acc
      \<and> acc_owner acc = pubkey (owner d) \<and> \<not> isFrozen acc \<and> amount d \<le> acc_amount acc)"

definition matched_token :: "TokenFee list \<Rightarrow> Account \<Rightarrow> TokenFee \<Rightarrow> bool" where
  "matched_token allowedTokens acc token =
     (find (\<lambda>t. mint t = acc_mint acc) allowedTokens = Some token)"

text \<open>Every check that precedes the authority check passes.\<close>

definition passes_until_authority ::
  "Library \<Rightarrow> Connection \<Rightarrow> Transaction \<Rightarrow> TokenFee list \<Rightarrow> DecodedInstruction \<Rightarrow> bool" where
  "passes_until_authority lib connection transaction allowedTokens d =
     (decodes_to lib transaction d
      \<and> (case getAccount connection (pubkey (source d)) of
           Inl _ \<Rightarrow> False
         | Inr acc \<Rightarrow>
             source_account_ok connection d acc
             \<and> (case find (\<lambda>t. mint t = acc_mint acc) allowedTokens of
                  None \<Rightarrow> False
                | Some token \<Rightarrow>
                    fee token \<le> amount d
                    \<and> \<not> isSigner (source d)
                    \<and> pubkey (destination d) = account token
                    \<and> isWritable (destination d)
                    \<and> \<not> isSigner (destination d))))"

section \<open>Stages of the account-initialization validator\<close>

text \<open>
  \<open>associated_account_of\<close>: the transaction, serialized after the context extraction
  and re-read from its raw form, is \<open>t\<close>; it has
  two instructions, the second targets the associated-token program and has at least four
  account references, and \<open>ata\<close> is the associated token address derived from its mint
  and owner references. \<open>account_init_checks_pass\<close>: in addition the address does not
  exist on the ledger, the instruction equals the reference instruction, and the cache
  holds no mark for the blockhash and the address.
\<close>

definition associated_account_of ::
  "Library \<Rightarrow> Transaction \<Rightarrow> Transaction \<Rightarrow> PublicKey \<Rightarrow> bool" where
  "associated_account_of lib originalTransaction t ata =
     ((case serialize lib (extractTransactionContext lib originalTransaction) False of
         Inl _ \<Rightarrow> False
       | Inr raw \<Rightarrow> Transaction_from lib raw = Inr t)
      \<and> length (instructions t) = 2
      \<and> programId (instructions t ! 1) = ASSOCIATED_TOKEN_PROGRAM_ID lib
      \<and> 4 \<le> length (keys (instructions t ! 1))
      \<and> getAssociatedTokenAddress lib (pubkey (keys (instructions t ! 1) ! 3))
           (pubkey (keys (instructions t ! 1) ! 2)) = Inr ata)"

definition account_init_checks_pass ::
  "Library \<Rightarrow> Connection \<Rightarrow> Transaction \<Rightarrow> Keypair \<Rightarrow> Cache \<Rightarrow> Transaction \<Rightarrow> PublicKey
     \<Rightarrow> bool" where
  "account_init_checks_pass lib connection originalTransaction feePayerKey cache t ata =
     (associated_account_of lib originalTransaction t ata
      \<and> getAccountInfo connection ata = Inr False
      \<and> areInstructionsEqual
           (createAssociatedTokenAccountInstruction lib (kp_publicKey feePayerKey) ata
              (pubkey (keys (instructions t ! 1) ! 2)) (pubkey (keys (instructions t ! 1) ! 3)))
           (instructions t ! 1)
      \<and> \<not> truthy (cache (account_cache_key (recentBlockhash t) ata)))"

section \<open>Stages of the orchestrators\<close>










section \<open>Properties of the instruction security validator\<close>

lemma validateInstructions_keys_result:
  "validateInstructions_keys ks custody =
     (if \<exists>k \<in> set ks. (isWritable k \<or> isSigner k) \<and> pubkey k = custody
      then Inl (Error ''invalid account'') else Inr ())"
  by (induction ks) auto

lemma validateInstructions_loop_result:
  "validateInstructions_loop ixs custody =
     (if \<exists>ix \<in> set ixs. \<exists>k \<in> set (keys ix). (isWritable k \<or> isSigner k) \<and> pubkey k = custody
      then Inl (Error ''invalid account'') else Inr ())"
  by (induction ixs) (auto simp: validateInstructions_keys_result)

lemma custody_exposed_set:
  "custody_exposed transaction custody \<longleftrightarrow>
     (\<exists>ix \<in> set (instructions transaction). \<exists>k \<in> set (keys ix).
        (isWritable k \<or> isSigner k) \<and> pubkey k = custody)"
  unfolding custody_exposed_def by (metis in_set_conv_nth lessThan_iff)

text \<open>
  C1. Whenever the custody key occurs with the writable or the signer flag in the account
  list of any instruction, at any position, \<open>validateInstructions\<close> fails with
  \<open>invalid account\<close>; when it occurs in no account list with either flag, the function
  returns without error.
\<close>

theorem validateInstructions_rejects_exposed_custody:
  "validateInstructions transaction feePayerKey =
     (if custody_exposed transaction (kp_publicKey feePayerKey)
      then Inl (Error ''invalid account'') else Inr ())"
  by (simp add: validateInstructions_def validateInstructions_loop_result custody_exposed_set)

theorem validateInstructions_rejects_exposed_custody_witness:
  "custody_exposed tx_writable_only (kp_publicKey custodyKey)
   \<and> validateInstructions tx_writable_only custodyKey = Inl (Error ''invalid account'')
   \<and> \<not> custody_exposed tx_harmless (kp_publicKey custodyKey)
   \<and> validateInstructions tx_harmless custodyKey = Inr ()"
proof -
  have a: "custody_exposed tx_writable_only (kp_publicKey custodyKey)"
    by (simp add: custody_exposed_set tx_writable_only_def plainTransaction_def
        memoInstruction_def meta_def custodyKey_def)
  have b: "\<not> custody_exposed tx_harmless (kp_publicKey custodyKey)"
    by (simp add: custody_exposed_set tx_harmless_def plainTransaction_def
        memoInstruction_def meta_def custodyKey_def)
  show ?thesis
    using a b validateInstructions_rejects_exposed_custody [of tx_writable_only custodyKey]
      validateInstructions_rejects_exposed_custody [of tx_harmless custodyKey]
    by simp
qed

text \<open>
  C8, as stated: the error of a rejection tells the writable case from the signer case.
  It does not: a transaction that references the custody key only as writable and one
  that references it only as a signer are rejected with the same error.
\<close>

theorem validateInstructions_role_counterexample:
  "validateInstructions tx_writable_only custodyKey = Inl (Error ''invalid account'')
   \<and> validateInstructions tx_signer_only custodyKey = Inl (Error ''invalid account'')
   \<and> validateInstructions tx_writable_only custodyKey
       = validateInstructions tx_signer_only custodyKey"
  by (simp add: validateInstructions_def tx_writable_only_def tx_signer_only_def
      plainTransaction_def memoInstruction_def meta_def custodyKey_def)

text \<open>
  C8, amended: every rejection by \<open>validateInstructions\<close> carries the one error
  \<open>invalid account\<close>, in the writable case and in the signer case alike.
\<close>

theorem validateInstructions_single_error:
  "validateInstructions transaction feePayerKey = Inl e \<Longrightarrow> e = Error ''invalid account''"
  by (simp add: validateInstructions_def validateInstructions_loop_result split: if_splits)

theorem validateInstructions_single_error_witness:
  "\<exists>e. validateInstructions tx_signer_only custodyKey = Inl e \<and> e = Error ''invalid account''"
proof -
  have r: "validateInstructions tx_signer_only custodyKey = Inl (Error ''invalid account'')"
    by (simp add: validateInstructions_def tx_signer_only_def
      plainTransaction_def memoInstruction_def meta_def custodyKey_def)
  from validateInstructions_single_error [OF r] r show ?thesis by simp
qed

section \<open>Properties of the context extraction\<close>

lemma extractTransactionContext_fields:
  "instructions (extractTransactionContext lib transaction) = instructions transaction"
  "feePayer (extractTransactionContext lib transaction) = feePayer transaction"
  "recentBlockhash (extractTransactionContext lib transaction) = recentBlockhash transaction"
  "signatures (extractTransactionContext lib transaction) = snd (serializeMessage lib transaction)"
  by (simp_all add: extractTransactionContext_def compiled_def)


section \<open>Properties of the transaction envelope validator\<close>




text \<open>The logged version is the bare one run on what the context extraction leaves.\<close>

lemma validateTransaction_after_context:
  "validateTransaction lib connection transaction feePayerKey maxSignatures lamportsPerSignature
     = validateTransaction_bare lib connection (extractTransactionContext lib transaction)
         feePayerKey maxSignatures lamportsPerSignature"
  unfolding validateTransaction_def validateTransaction_bare_def Let_def by (rule refl)





text \<open>
  Two more observations. With logging, a transaction that arrives with no signature slot
  is signed when the custody key is its only required signer: the compilation has given
  it the custody slot before the slots are counted. And outside the declared type, when
  the first three checks pass and slot 0 carries no public key, the comparison of check
  (4) is a runtime type error.
\<close>

lemma validateTransaction_signs_without_slots:
  "first_failure (envelope_checks tx_no_slots custodyKey 5) = Some ''no signatures''
   \<and> fst (validateTransaction (sampleLibrary tx_harmless) sampleConnection tx_no_slots
            custodyKey 5 5000)
       = Inr \<lparr>result_signature = ''zzz'', rawTransaction = [1, 1]\<rparr>"
proof -
  have "sampleCompile tx_no_slots
          = (Inr [10, 1], [\<lparr>signature = None, publicKey = Some (PublicKey ''Custody'')\<rparr>])"
    by (simp add: sampleCompile_def sampleSigners_def tx_no_slots_def memoInstruction_def
        meta_def truthy_string_def template_text_def)
  then have c: "extractTransactionContext (sampleLibrary tx_harmless) tx_no_slots
          = tx_no_slots\<lparr>signatures := [\<lparr>signature = None,
                                           publicKey = Some (PublicKey ''Custody'')\<rparr>]\<rparr>"
    by (simp add: extractTransactionContext_def compiled_def sampleLibrary_def)
  have f: "first_failure (envelope_checks tx_no_slots custodyKey 5) = Some ''no signatures''"
    by (simp add: envelope_checks_def tx_no_slots_def custodyKey_def truthy_string_def)
  have "fst (validateTransaction_bare (sampleLibrary tx_harmless) sampleConnection
          (tx_no_slots\<lparr>signatures := [\<lparr>signature = None,
                                        publicKey = Some (PublicKey ''Custody'')\<rparr>]\<rparr>)
          custodyKey 5 5000)
       = Inr \<lparr>result_signature = ''zzz'', rawTransaction = [1, 1]\<rparr>"
    by (simp add: validateTransaction_bare_def validateTransaction_sign_def external_def
        transaction_signature_def truthy_string_def sampleLibrary_def sampleSign_def
        tx_no_slots_def custodyKey_def)
  with f show ?thesis
    by (simp add: validateTransaction_after_context c)
qed

lemma validateTransaction_untyped_slot0:
  assumes "feePayer transaction = Some (kp_publicKey feePayerKey)"
    and "truthy_string (recentBlockhash transaction)"
    and "signatures transaction = primary # secondary"
    and "int (length (signatures transaction)) \<le> maxSignatures"
    and "publicKey primary = None"
  shows "validateTransaction_bare lib connection transaction feePayerKey maxSignatures
           lamportsPerSignature = (Inl TypeError, transaction)"
  using assms by (simp add: validateTransaction_bare_def)

lemma validateTransaction_fee_ceiling_unused:
  "validateTransaction lib connection transaction feePayerKey maxSignatures l
     = validateTransaction lib connection transaction feePayerKey maxSignatures 0"
  by (simp add: validateTransaction_def)

lemma validateTransaction_bare_fee_ceiling_unused:
  "validateTransaction_bare lib connection transaction feePayerKey maxSignatures l
     = validateTransaction_bare lib connection transaction feePayerKey maxSignatures 0"
  by (simp add: validateTransaction_bare_def)

text \<open>
  C10. The per-signature fee ceiling has no effect: for any two values of
  \<open>lamportsPerSignature\<close>, \<open>validateTransaction\<close> (with logging and bare),
  \<open>signWithTokenFee\<close> and \<open>createAccountIfTokenFeePaid\<close> each return the same outcome
  (and leave the same cache and transaction).
\<close>

theorem fee_ceiling_has_no_effect:
  "validateTransaction lib connection transaction feePayerKey maxSignatures l1
     = validateTransaction lib connection transaction feePayerKey maxSignatures l2
   \<and> signWithTokenFee lib connection clock transaction feePayerKey maxSignatures l1
        allowedTokens cache sameSourceTimeout
     = signWithTokenFee lib connection clock transaction feePayerKey maxSignatures l2
        allowedTokens cache sameSourceTimeout
   \<and> createAccountIfTokenFeePaid lib connection clock transaction feePayerKey maxSignatures l1
        allowedTokens cache sameSourceTimeout
     = createAccountIfTokenFeePaid lib connection clock transaction feePayerKey maxSignatures l2
        allowedTokens cache sameSourceTimeout
   \<and> validateTransaction_bare lib connection transaction feePayerKey maxSignatures l1
     = validateTransaction_bare lib connection transaction feePayerKey maxSignatures l2"
proof -
  have h: "validateTransaction lib connection t feePayerKey maxSignatures l1
             = validateTransaction lib connection t feePayerKey maxSignatures l2" for t
    using validateTransaction_fee_ceiling_unused [of lib connection t feePayerKey maxSignatures l1]
      validateTransaction_fee_ceiling_unused [of lib connection t feePayerKey maxSignatures l2]
    by simp
  have b: "validateTransaction_bare lib connection transaction feePayerKey maxSignatures l1
     = validateTransaction_bare lib connection transaction feePayerKey maxSignatures l2"
    using validateTransaction_bare_fee_ceiling_unused
        [of lib connection transaction feePayerKey maxSignatures l1]
      validateTransaction_bare_fee_ceiling_unused
        [of lib connection transaction feePayerKey maxSignatures l2]
    by simp
  show ?thesis
    unfolding signWithTokenFee_def createAccountIfTokenFeePaid_def h b by simp
qed

theorem fee_ceiling_has_no_effect_witness:
  "validateTransaction (sampleLibrary tx_harmless) sampleConnection tx_unsigned_secondary
        custodyKey 5 5000
     = validateTransaction (sampleLibrary tx_harmless) sampleConnection tx_unsigned_secondary
        custodyKey 5 0"
  using fee_ceiling_has_no_effect [of "sampleLibrary tx_harmless" sampleConnection
      tx_unsigned_secondary custodyKey 5 5000 0]
  by simp

section \<open>Properties of the transfer validator\<close>

text \<open>The sample library leaves the slots of the sample transactions used below as follows.\<close>

lemma sample_compile_transfer:
  "extractTransactionContext (sampleLibrary r) (tx_transfer n) = tx_transfer n"
proof -
  have "snd (sampleCompile (tx_transfer n)) = signatures (tx_transfer n)"
    by (simp add: sampleCompile_def sampleSigners_def tx_transfer_def plainTransaction_def
        memoInstruction_def transferInstruction_def meta_def truthy_string_def)
  then show ?thesis
    by (simp add: extractTransactionContext_def compiled_def sampleLibrary_def)
qed

lemma sample_compile_harmless:
  "extractTransactionContext (sampleLibrary r) tx_harmless = tx_harmless"
proof -
  have "snd (sampleCompile tx_harmless) = signatures tx_harmless"
    by (simp add: sampleCompile_def sampleSigners_def tx_harmless_def plainTransaction_def
        memoInstruction_def meta_def truthy_string_def)
  then show ?thesis
    by (simp add: extractTransactionContext_def compiled_def sampleLibrary_def)
qed


lemma sample_decoded_transfer:
  "decodeInstruction (sampleLibrary r) (transferInstruction n)
     = Inr (DecodedTransfer (meta ''Source'' False True) (meta ''FeeAccount'' False True)
              (meta ''Owner'' True False) (int n))"
  by (simp add: sampleLibrary_def sampleDecode_def transferInstruction_def)

lemma sample_decodes_to:
  "decodes_to (sampleLibrary r) (tx_transfer n)
     (DecodedTransfer (meta ''Source'' False True) (meta ''FeeAccount'' False True)
        (meta ''Owner'' True False) (int n))"
proof -
  have "find (\<lambda>ix. programId ix = TOKEN_PROGRAM_ID (sampleLibrary r)) (instructions (tx_transfer n))
          = Some (transferInstruction n)"
    by (simp add: tx_transfer_def plainTransaction_def memoInstruction_def
        transferInstruction_def sampleLibrary_def)
  then show ?thesis
    by (simp add: decodes_to_def sample_decoded_transfer)
qed

lemma sample_source_account:
  "n \<le> 1000 \<Longrightarrow>
   source_account_ok sampleConnection
     (DecodedTransfer (meta ''Source'' False True) (meta ''FeeAccount'' False True)
        (meta ''Owner'' True False) (int n))
     \<lparr>acc_mint = PublicKey ''Mint'', acc_owner = PublicKey ''Owner'',
      acc_amount = 1000, isFrozen = False\<rparr>"
  by (simp add: source_account_ok_def sampleConnection_def meta_def)

lemma sample_matched_token:
  "matched_token sampleTokens
     \<lparr>acc_mint = PublicKey ''Mint'', acc_owner = PublicKey ''Owner'',
      acc_amount = 1000, isFrozen = False\<rparr>
     \<lparr>mint = PublicKey ''Mint'', account = PublicKey ''FeeAccount'', decimals = 6, fee = 100\<rparr>"
  by (simp add: matched_token_def sampleTokens_def)

lemma validateTransfer_found:
  assumes "find (\<lambda>ix. programId ix = TOKEN_PROGRAM_ID lib) (instructions transaction) = Some ix"
  shows "validateTransfer lib connection transaction allowedTokens =
     (case decodeInstruction lib ix of
        Inl msg \<Rightarrow> Inl (LibraryError msg)
      | Inr d \<Rightarrow>
          if isTransferInstruction d \<or> isTransferCheckedInstruction d
          then validateTransfer_decoded lib connection
                 (extractTransactionContext lib transaction) allowedTokens d
          else Inl (Error ''invalid instruction''))"
  using assms
  by (simp add: validateTransfer_def Let_def extractTransactionContext_fields external_def
      split: sum.splits)

text \<open>
  C3. Once the transfer is decoded, the source account has passed its checks and an
  allow-list entry is matched: an amount strictly below the entry's fee makes
  \<open>validateTransfer\<close> fail with \<open>invalid amount\<close>, and an amount equal to the fee (or
  above it) passes the amount check, so the boundary is \<open>amount \<ge> fee\<close>.
\<close>

theorem validateTransfer_amount_boundary:
  assumes "decodes_to lib transaction d"
    and "source_account_ok connection d acc"
    and "matched_token allowedTokens acc token"
  shows "(amount d < fee token \<longrightarrow>
            validateTransfer lib connection transaction allowedTokens
              = Inl (Error ''invalid amount''))
       \<and> (amount d = fee token \<or> fee token < amount d \<longrightarrow>
            validateTransfer lib connection transaction allowedTokens
              \<noteq> Inl (Error ''invalid amount''))"
proof -
  from assms(1) obtain ix where
    ix: "find (\<lambda>ix. programId ix = TOKEN_PROGRAM_ID lib) (instructions transaction) = Some ix"
      "decodeInstruction lib ix = Inr d"
      "isTransferInstruction d \<or> isTransferCheckedInstruction d"
    by (auto simp: decodes_to_def split: option.splits)
  from assms(2) have acc: "getAccount connection (pubkey (source d)) = Inr acc"
      "acc_owner acc = pubkey (owner d)" "\<not> isFrozen acc" "\<not> acc_amount acc < amount d"
    by (auto simp: source_account_ok_def)
  from assms(3) have tok: "find (\<lambda>t. mint t = acc_mint acc) allowedTokens = Some token"
    by (simp add: matched_token_def)
  show ?thesis
    using ix(2,3) acc tok
    by (auto simp: validateTransfer_found [OF ix(1)] validateTransfer_decoded_def external_def
        split: option.splits)
qed

theorem validateTransfer_amount_boundary_witness:
  "validateTransfer (sampleLibrary tx_harmless) sampleConnection (tx_transfer 99) sampleTokens
     = Inl (Error ''invalid amount'')
   \<and> validateTransfer (sampleLibrary tx_harmless) sampleConnection (tx_transfer 100) sampleTokens
     \<noteq> Inl (Error ''invalid amount'')"
proof -
  have low: "(99::nat) \<le> 1000" and exact: "(100::nat) \<le> 1000"
    by simp_all
  show ?thesis
    using
      validateTransfer_amount_boundary [OF sample_decodes_to sample_source_account [OF low]
        sample_matched_token, of tx_harmless]
      validateTransfer_amount_boundary [OF sample_decodes_to sample_source_account [OF exact]
        sample_matched_token, of tx_harmless]
    by simp
qed

text \<open>At the boundary the sample transfer is accepted as a whole.\<close>

lemma sample_transfer_found:
  "find (\<lambda>ix. programId ix = TOKEN_PROGRAM_ID (sampleLibrary r)) (instructions (tx_transfer n))
     = Some (transferInstruction n)"
  by (simp add: tx_transfer_def plainTransaction_def memoInstruction_def
      transferInstruction_def sampleLibrary_def)

lemma sample_decoded_accepted:
  assumes "signatures t = signatures (tx_transfer 100) \<or> signatures t = slots_unsigned"
  shows "validateTransfer_decoded (sampleLibrary r) sampleConnection t sampleTokens sampleTransfer
           = Inr sampleTransfer"
  using assms
  by (auto simp: validateTransfer_decoded_def external_def sampleConnection_def
      sampleTokens_def sampleTransfer_def meta_def at_index_def slots_unsigned_def
      tx_transfer_def plainTransaction_def)

lemma validateTransfer_accepts_exact_fee:
  "validateTransfer (sampleLibrary tx_harmless) sampleConnection (tx_transfer 100) sampleTokens
     = Inr sampleTransfer"
proof -
  have d: "decodeInstruction (sampleLibrary tx_harmless) (transferInstruction 100)
          = Inr sampleTransfer"
    by (simp add: sample_decoded_transfer sampleTransfer_def)
  have k: "isTransferInstruction sampleTransfer"
    by (simp add: sampleTransfer_def)
  have a: "validateTransfer_decoded (sampleLibrary tx_harmless) sampleConnection (tx_transfer 100)
             sampleTokens sampleTransfer = Inr sampleTransfer"
    by (rule sample_decoded_accepted) simp
  show ?thesis
    by (simp add: validateTransfer_found [OF sample_transfer_found] sample_compile_transfer
        d k a)
qed

lemma find_first_match:
  "\<forall>b \<in> set before. \<not> P b \<Longrightarrow> P x \<Longrightarrow> find P (before @ x # rest) = Some x"
  by (induction before) auto


lemma passes_until_authority_from_checks:
  assumes "find (\<lambda>ix. programId ix = TOKEN_PROGRAM_ID lib) (instructions transaction) = Some ix"
    "decodeInstruction lib ix = Inr d"
    "isTransferInstruction d \<or> isTransferCheckedInstruction d"
    "getAccount connection (pubkey (source d)) = Inr acc"
    "acc_owner acc = pubkey (owner d)" "\<not> isFrozen acc" "\<not> acc_amount acc < amount d"
    "find (\<lambda>t. mint t = acc_mint acc) allowedTokens = Some token"
    "\<not> amount d < fee token" "\<not> isSigner (source d)"
    "pubkey (destination d) = account token" "isWritable (destination d)"
    "\<not> isSigner (destination d)"
  shows "passes_until_authority lib connection transaction allowedTokens d"
  using assms
  by (simp add: passes_until_authority_def decodes_to_def source_account_ok_def)




lemma validateTransfer_decoded_passes:
  assumes "validateTransfer_decoded lib connection t allowedTokens d = r"
    and "r = Inl (Error ''owner missing signature'') \<or> r = Inr d'"
  shows "\<exists>acc token. getAccount connection (pubkey (source d)) = Inr acc
           \<and> acc_owner acc = pubkey (owner d) \<and> \<not> isFrozen acc \<and> \<not> acc_amount acc < amount d
           \<and> find (\<lambda>t. mint t = acc_mint acc) allowedTokens = Some token
           \<and> \<not> amount d < fee token \<and> \<not> isSigner (source d)
           \<and> pubkey (destination d) = account token \<and> isWritable (destination d)
           \<and> \<not> isSigner (destination d)"
proof -
  from assms obtain acc where acc: "getAccount connection (pubkey (source d)) = Inr acc"
    by (cases rule: sum.exhaust [of "getAccount connection (pubkey (source d))"])
      (auto simp: validateTransfer_decoded_def external_def)
  with assms have src:
    "acc_owner acc = pubkey (owner d)" "\<not> isFrozen acc" "\<not> acc_amount acc < amount d"
    by (auto simp: validateTransfer_decoded_def external_def split: if_splits)
  with assms acc obtain token where
    token: "find (\<lambda>t. mint t = acc_mint acc) allowedTokens = Some token"
    by (auto simp: validateTransfer_decoded_def external_def split: option.splits)
  with assms acc src have roles:
    "\<not> amount d < fee token" "\<not> isSigner (source d)"
    "pubkey (destination d) = account token" "isWritable (destination d)"
    "\<not> isSigner (destination d)"
    by (auto simp: validateTransfer_decoded_def external_def split: if_splits)
  from acc src token roles show ?thesis by blast
qed

lemma validateTransfer_decoded_returns:
  "validateTransfer_decoded lib connection t allowedTokens d = Inr d' \<Longrightarrow> d' = d"
  by (auto simp: validateTransfer_decoded_def external_def
      split: sum.splits option.splits if_splits)

lemma validateTransfer_outcome_passes:
  assumes "validateTransfer lib connection transaction allowedTokens = r"
    and "r = Inl (Error ''owner missing signature'') \<or> r = Inr d'"
  shows "\<exists>ix d. find (\<lambda>ix. programId ix = TOKEN_PROGRAM_ID lib) (instructions transaction)
                   = Some ix
           \<and> decodeInstruction lib ix = Inr d
           \<and> passes_until_authority lib connection transaction allowedTokens d
           \<and> (r = Inr d' \<longrightarrow> d' = d)"
proof -
  from assms obtain ix where ix:
    "find (\<lambda>ix. programId ix = TOKEN_PROGRAM_ID lib) (instructions transaction) = Some ix"
    by (cases "find (\<lambda>ix. programId ix = TOKEN_PROGRAM_ID lib) (instructions transaction)")
      (auto simp: validateTransfer_def Let_def extractTransactionContext_fields)
  note found = validateTransfer_found [OF ix, of connection allowedTokens]
  from assms found obtain d where d: "decodeInstruction lib ix = Inr d"
    by (cases rule: sum.exhaust [of "decodeInstruction lib ix"]) auto
  with assms found have kind: "isTransferInstruction d \<or> isTransferCheckedInstruction d"
    by (auto split: if_splits)
  with assms found d have dec: "validateTransfer_decoded lib connection
      (extractTransactionContext lib transaction) allowedTokens d = r"
    by simp
  from validateTransfer_decoded_passes [OF dec assms(2)] obtain acc token where c:
    "getAccount connection (pubkey (source d)) = Inr acc"
    "acc_owner acc = pubkey (owner d)" "\<not> isFrozen acc" "\<not> acc_amount acc < amount d"
    "find (\<lambda>t. mint t = acc_mint acc) allowedTokens = Some token"
    "\<not> amount d < fee token" "\<not> isSigner (source d)"
    "pubkey (destination d) = account token" "isWritable (destination d)"
    "\<not> isSigner (destination d)"
    by blast
  have p: "passes_until_authority lib connection transaction allowedTokens d"
    by (rule passes_until_authority_from_checks [OF ix d kind c])
  have "r = Inr d' \<longrightarrow> d' = d"
    using dec validateTransfer_decoded_returns [of lib connection
        "extractTransactionContext lib transaction" allowedTokens d d']
    by auto
  with ix d p show ?thesis by blast
qed


text \<open>
  C7. \<open>validateTransfer\<close> fails with \<open>missing token instruction\<close> exactly when no
  instruction of the transaction targets the token program. When some do, the first of
  them in instruction order is the one decoded and validated: a failure of its decoding
  is the outcome, a decoding that is no transfer gives \<open>invalid instruction\<close>,
  otherwise the outcome is that of the checks on its decoded form, and an instruction
  that the function returns is the decoded form of that first instruction, which has
  passed the checks that precede the authority check.
\<close>

theorem validateTransfer_first_token_instruction:
  "((\<forall>ix \<in> set (instructions transaction). programId ix \<noteq> TOKEN_PROGRAM_ID lib)
      \<longleftrightarrow> validateTransfer lib connection transaction allowedTokens
            = Inl (Error ''missing token instruction''))
   \<and> (\<forall>before ix rest.
        instructions transaction = before @ ix # rest
        \<and> (\<forall>b \<in> set before. programId b \<noteq> TOKEN_PROGRAM_ID lib)
        \<and> programId ix = TOKEN_PROGRAM_ID lib
        \<longrightarrow> find (\<lambda>ix. programId ix = TOKEN_PROGRAM_ID lib) (instructions transaction) = Some ix
            \<and> validateTransfer lib connection transaction allowedTokens
              = (case decodeInstruction lib ix of
                   Inl msg \<Rightarrow> Inl (LibraryError msg)
                 | Inr d \<Rightarrow>
                     if isTransferInstruction d \<or> isTransferCheckedInstruction d
                     then validateTransfer_decoded lib connection
                            (extractTransactionContext lib transaction) allowedTokens d
                     else Inl (Error ''invalid instruction''))
            \<and> (\<forall>d. validateTransfer lib connection transaction allowedTokens = Inr d
                  \<longrightarrow> decodeInstruction lib ix = Inr d
                      \<and> passes_until_authority lib connection transaction allowedTokens d))"
proof -
  have none: "(\<forall>ix \<in> set (instructions transaction). programId ix \<noteq> TOKEN_PROGRAM_ID lib)
      \<longleftrightarrow> validateTransfer lib connection transaction allowedTokens
            = Inl (Error ''missing token instruction'')"
  proof (cases "find (\<lambda>ix. programId ix = TOKEN_PROGRAM_ID lib) (instructions transaction)")
    case None
    then have "validateTransfer lib connection transaction allowedTokens
            = Inl (Error ''missing token instruction'')"
      by (simp add: validateTransfer_def Let_def extractTransactionContext_fields)
    moreover from None
    have "\<forall>ix \<in> set (instructions transaction). programId ix \<noteq> TOKEN_PROGRAM_ID lib"
      by (simp add: find_None_iff)
    ultimately show ?thesis by simp
  next
    case (Some ix)
    then have "\<not> (\<forall>ix \<in> set (instructions transaction). programId ix \<noteq> TOKEN_PROGRAM_ID lib)"
      by (auto simp: find_Some_iff)
    moreover have "validateTransfer lib connection transaction allowedTokens
            \<noteq> Inl (Error ''missing token instruction'')"
      by (auto simp: validateTransfer_found [OF Some] validateTransfer_decoded_def external_def
          split: option.splits sum.splits)
    ultimately show ?thesis by simp
  qed
  have first: "validateTransfer lib connection transaction allowedTokens
              = (case decodeInstruction lib ix of
                   Inl msg \<Rightarrow> Inl (LibraryError msg)
                 | Inr d \<Rightarrow>
                     if isTransferInstruction d \<or> isTransferCheckedInstruction d
                     then validateTransfer_decoded lib connection
                            (extractTransactionContext lib transaction) allowedTokens d
                     else Inl (Error ''invalid instruction''))
            \<and> (\<forall>d. validateTransfer lib connection transaction allowedTokens = Inr d
                  \<longrightarrow> decodeInstruction lib ix = Inr d
                      \<and> passes_until_authority lib connection transaction allowedTokens d)"
    if f: "find (\<lambda>ix. programId ix = TOKEN_PROGRAM_ID lib) (instructions transaction) = Some ix"
    for ix
  proof -
    have "decodeInstruction lib ix = Inr d
            \<and> passes_until_authority lib connection transaction allowedTokens d"
      if r: "validateTransfer lib connection transaction allowedTokens = Inr d" for d
    proof -
      from validateTransfer_outcome_passes [OF r, of d] f obtain d0 where
        "decodeInstruction lib ix = Inr d0"
        "passes_until_authority lib connection transaction allowedTokens d0" "d = d0"
        by auto
      then show ?thesis by simp
    qed
    with validateTransfer_found [OF f, of connection allowedTokens] show ?thesis
      by blast
  qed
  show ?thesis
    using none first by (auto simp: find_first_match)
qed

theorem validateTransfer_first_token_instruction_witness:
  "validateTransfer (sampleLibrary tx_harmless) sampleConnection tx_harmless sampleTokens
     = Inl (Error ''missing token instruction'')
   \<and> find (\<lambda>ix. programId ix = TOKEN_PROGRAM_ID (sampleLibrary tx_harmless))
        (instructions (tx_transfer 100)) = Some (transferInstruction 100)
   \<and> decodeInstruction (sampleLibrary tx_harmless) (transferInstruction 100) = Inr sampleTransfer
   \<and> validateTransfer (sampleLibrary tx_harmless) sampleConnection (tx_transfer 100) sampleTokens
     = Inr sampleTransfer"
proof -
  have a: "\<forall>ix \<in> set (instructions tx_harmless).
             programId ix \<noteq> TOKEN_PROGRAM_ID (sampleLibrary tx_harmless)"
    by (simp add: tx_harmless_def plainTransaction_def memoInstruction_def sampleLibrary_def)
  have b: "instructions (tx_transfer 100)
             = [memoInstruction [meta ''Owner'' True False]] @ transferInstruction 100
                 # [transferInstruction 1]
           \<and> (\<forall>b \<in> set [memoInstruction [meta ''Owner'' True False]].
                 programId b \<noteq> TOKEN_PROGRAM_ID (sampleLibrary tx_harmless))
           \<and> programId (transferInstruction 100) = TOKEN_PROGRAM_ID (sampleLibrary tx_harmless)"
    by (simp add: tx_transfer_def plainTransaction_def memoInstruction_def sampleLibrary_def
        transferInstruction_def)
  have d: "decodeInstruction (sampleLibrary tx_harmless) (transferInstruction 100)
          = Inr sampleTransfer"
    by (simp add: sample_decoded_transfer sampleTransfer_def)
  have k: "isTransferInstruction sampleTransfer"
    by (simp add: sampleTransfer_def)
  have v: "validateTransfer_decoded (sampleLibrary tx_harmless) sampleConnection
             (extractTransactionContext (sampleLibrary tx_harmless) (tx_transfer 100))
             sampleTokens sampleTransfer = Inr sampleTransfer"
    unfolding sample_compile_transfer by (rule sample_decoded_accepted) simp
  from validateTransfer_first_token_instruction
    [of tx_harmless "sampleLibrary tx_harmless" sampleConnection sampleTokens] a
  have r1: "validateTransfer (sampleLibrary tx_harmless) sampleConnection tx_harmless sampleTokens
     = Inl (Error ''missing token instruction'')"
    by blast
  from validateTransfer_first_token_instruction
    [of "tx_transfer 100" "sampleLibrary tx_harmless" sampleConnection sampleTokens] b
  have r2: "find (\<lambda>ix. programId ix = TOKEN_PROGRAM_ID (sampleLibrary tx_harmless))
              (instructions (tx_transfer 100)) = Some (transferInstruction 100)
    \<and> validateTransfer (sampleLibrary tx_harmless) sampleConnection (tx_transfer 100) sampleTokens
     = (case decodeInstruction (sampleLibrary tx_harmless) (transferInstruction 100) of
                   Inl msg \<Rightarrow> Inl (LibraryError msg)
                 | Inr d \<Rightarrow>
                     if isTransferInstruction d \<or> isTransferCheckedInstruction d
                     then validateTransfer_decoded (sampleLibrary tx_harmless) sampleConnection
                            (extractTransactionContext (sampleLibrary tx_harmless)
                               (tx_transfer 100)) sampleTokens d
                     else Inl (Error ''invalid instruction''))"
    by blast
  from r1 r2 d k v show ?thesis by simp
qed








section \<open>Properties of the account-initialization validator\<close>

lemma associated_account_of_unfold:
  assumes "associated_account_of lib originalTransaction t ata"
  obtains raw mintM where
    "serialize lib (extractTransactionContext lib originalTransaction) False = Inr raw"
    "Transaction_from lib raw = Inr t"
    "length (instructions t) = 2"
    "programId (instructions t ! 1) = ASSOCIATED_TOKEN_PROGRAM_ID lib"
    "at_index (keys (instructions t ! 1)) 3 = Some mintM"
    "mintM = keys (instructions t ! 1) ! 3"
    "getAssociatedTokenAddress lib (pubkey mintM) (pubkey (keys (instructions t ! 1) ! 2))
       = Inr ata"
  using assms
  by (auto simp: associated_account_of_def at_index_def split: sum.splits)

lemma validateAccountInitialization_existing:
  assumes "associated_account_of lib originalTransaction t ata"
    and "getAccountInfo connection ata = Inr True"
  shows "validateAccountInitializationInstructions lib connection originalTransaction
           feePayerKey cache = (Inl (Error ''account already exists''), cache)"
proof -
  from assms(1) obtain raw mintM where h:
    "serialize lib (extractTransactionContext lib originalTransaction) False = Inr raw"
    "Transaction_from lib raw = Inr t"
    "length (instructions t) = 2"
    "programId (instructions t ! 1) = ASSOCIATED_TOKEN_PROGRAM_ID lib"
    "at_index (keys (instructions t ! 1)) 3 = Some mintM"
    "mintM = keys (instructions t ! 1) ! 3"
    "getAssociatedTokenAddress lib (pubkey mintM) (pubkey (keys (instructions t ! 1) ! 2))
       = Inr ata"
    by (rule associated_account_of_unfold)
  from h assms(2) show ?thesis
    by (simp add: validateAccountInitializationInstructions_def external_def Let_def)
qed

lemma validateAccountInitialization_marks:
  assumes "account_init_checks_pass lib connection originalTransaction feePayerKey cache t ata"
  shows "validateAccountInitializationInstructions lib connection originalTransaction
           feePayerKey cache
         = (Inr (), cache(account_cache_key (recentBlockhash t) ata \<mapsto> CBool True))"
proof -
  from assms have a: "associated_account_of lib originalTransaction t ata"
    and rest: "getAccountInfo connection ata = Inr False"
      "areInstructionsEqual
           (createAssociatedTokenAccountInstruction lib (kp_publicKey feePayerKey) ata
              (pubkey (keys (instructions t ! 1) ! 2)) (pubkey (keys (instructions t ! 1) ! 3)))
           (instructions t ! 1)"
      "\<not> truthy (cache (account_cache_key (recentBlockhash t) ata))"
    by (simp_all add: account_init_checks_pass_def)
  from a obtain raw mintM where h:
    "serialize lib (extractTransactionContext lib originalTransaction) False = Inr raw"
    "Transaction_from lib raw = Inr t"
    "length (instructions t) = 2"
    "programId (instructions t ! 1) = ASSOCIATED_TOKEN_PROGRAM_ID lib"
    "at_index (keys (instructions t ! 1)) 3 = Some mintM"
    "mintM = keys (instructions t ! 1) ! 3"
    "getAssociatedTokenAddress lib (pubkey mintM) (pubkey (keys (instructions t ! 1) ! 2))
       = Inr ata"
    by (rule associated_account_of_unfold)
  from h rest show ?thesis
    by (simp add: validateAccountInitializationInstructions_def external_def Let_def)
qed

lemma validateAccountInitialization_write_needs_checks:
  assumes "snd (validateAccountInitializationInstructions lib connection originalTransaction
                  feePayerKey cache) \<noteq> cache"
  shows "\<exists>t ata. account_init_checks_pass lib connection originalTransaction feePayerKey
                   cache t ata"
proof -
  let ?v = "validateAccountInitializationInstructions lib connection originalTransaction
              feePayerKey cache"
  from assms obtain raw where
    raw: "serialize lib (extractTransactionContext lib originalTransaction) False = Inr raw"
    by (cases rule: sum.exhaust
        [of "serialize lib (extractTransactionContext lib originalTransaction) False"])
      (auto simp: validateAccountInitializationInstructions_def external_def Let_def)
  with assms obtain t where t: "Transaction_from lib raw = Inr t"
    by (cases rule: sum.exhaust [of "Transaction_from lib raw"])
      (auto simp: validateAccountInitializationInstructions_def external_def Let_def)
  with assms raw have two: "length (instructions t) = 2"
    and prog: "programId (instructions t ! 1) = ASSOCIATED_TOKEN_PROGRAM_ID lib"
    by (auto simp: validateAccountInitializationInstructions_def external_def Let_def
        split: if_splits)
  with assms raw t have four: "4 \<le> length (keys (instructions t ! 1))"
    by (auto simp: validateAccountInitializationInstructions_def external_def Let_def
        at_index_def split: if_splits)
  then have idx: "at_index (keys (instructions t ! 1)) 3 = Some (keys (instructions t ! 1) ! 3)"
    by (simp add: at_index_def)
  let ?g = "getAssociatedTokenAddress lib (pubkey (keys (instructions t ! 1) ! 3))
              (pubkey (keys (instructions t ! 1) ! 2))"
  from assms raw t two prog idx obtain ata where ata: "?g = Inr ata"
    by (cases rule: sum.exhaust [of ?g])
      (auto simp: validateAccountInitializationInstructions_def external_def Let_def)
  from assms raw t two prog idx ata obtain present where
    info: "getAccountInfo connection ata = Inr present"
    by (cases rule: sum.exhaust [of "getAccountInfo connection ata"])
      (auto simp: validateAccountInitializationInstructions_def external_def Let_def)
  from assms raw t two prog idx ata info have final:
    "\<not> present"
    "areInstructionsEqual
           (createAssociatedTokenAccountInstruction lib (kp_publicKey feePayerKey) ata
              (pubkey (keys (instructions t ! 1) ! 2)) (pubkey (keys (instructions t ! 1) ! 3)))
           (instructions t ! 1)"
    "\<not> truthy (cache (account_cache_key (recentBlockhash t) ata))"
    by (auto simp: validateAccountInitializationInstructions_def external_def Let_def
        split: if_splits)
  from raw t two prog four ata info final
  have "account_init_checks_pass lib connection originalTransaction feePayerKey cache t ata"
    by (simp add: account_init_checks_pass_def associated_account_of_def)
  then show ?thesis by blast
qed

text \<open>
  C6. When the derived associated token account already exists on the ledger,
  \<open>validateAccountInitializationInstructions\<close> fails with \<open>account already exists\<close>
  and returns the cache as it was, so the key of the blockhash and the address is not
  written. The call changes the cache only when every check has passed (instruction
  count, target program, absence on the ledger, equality with the reference instruction,
  no earlier mark), and then it writes exactly that key.
\<close>

theorem validateAccountInitialization_marks_only_after_checks:
  "(associated_account_of lib originalTransaction t ata
      \<and> getAccountInfo connection ata = Inr True
      \<longrightarrow> validateAccountInitializationInstructions lib connection originalTransaction
            feePayerKey cache = (Inl (Error ''account already exists''), cache))
   \<and> (account_init_checks_pass lib connection originalTransaction feePayerKey cache t ata
      \<longrightarrow> validateAccountInitializationInstructions lib connection originalTransaction
            feePayerKey cache
          = (Inr (), cache(account_cache_key (recentBlockhash t) ata \<mapsto> CBool True)))
   \<and> (snd (validateAccountInitializationInstructions lib connection originalTransaction
              feePayerKey cache) \<noteq> cache
      \<longrightarrow> (\<exists>t ata. account_init_checks_pass lib connection originalTransaction feePayerKey
                     cache t ata))"
  using validateAccountInitialization_existing
      [of lib originalTransaction t ata connection feePayerKey cache]
    validateAccountInitialization_marks
      [of lib connection originalTransaction feePayerKey cache t ata]
    validateAccountInitialization_write_needs_checks
      [of lib connection originalTransaction feePayerKey cache]
  by blast

theorem validateAccountInitialization_marks_only_after_checks_witness:
  "validateAccountInitializationInstructions (sampleLibrary (tx_create ''Holder''))
       sampleConnection (tx_create ''Holder'') custodyKey Map.empty
     = (Inl (Error ''account already exists''), Map.empty)
   \<and> validateAccountInitializationInstructions (sampleLibrary (tx_create ''Newcomer''))
       sampleConnection (tx_create ''Newcomer'') custodyKey Map.empty
     = (Inr (), [''account/Blockhash1_Newcomer+Mint'' \<mapsto> CBool True])"
proof -
  have a: "associated_account_of (sampleLibrary (tx_create ''Holder'')) (tx_create ''Holder'')
             (tx_create ''Holder'') (PublicKey ''Holder+Mint'')"
    by (simp add: associated_account_of_def sampleLibrary_def tx_create_def
        plainTransaction_def createInstruction_def transferInstruction_def meta_def)
  have e: "getAccountInfo sampleConnection (PublicKey ''Holder+Mint'') = Inr True"
    by (simp add: sampleConnection_def)
  have p: "account_init_checks_pass (sampleLibrary (tx_create ''Newcomer'')) sampleConnection
             (tx_create ''Newcomer'') custodyKey Map.empty (tx_create ''Newcomer'')
             (PublicKey ''Newcomer+Mint'')"
    by (simp add: account_init_checks_pass_def associated_account_of_def sampleLibrary_def
        sampleConnection_def tx_create_def plainTransaction_def createInstruction_def
        transferInstruction_def meta_def areInstructionsEqual_def custodyKey_def)
  have k: "account_cache_key (recentBlockhash (tx_create ''Newcomer''))
             (PublicKey ''Newcomer+Mint'') = ''account/Blockhash1_Newcomer+Mint''"
    by (simp add: account_cache_key_def template_text_def tx_create_def plainTransaction_def)
  from validateAccountInitialization_marks_only_after_checks
    [of "sampleLibrary (tx_create ''Holder'')" "tx_create ''Holder''" "tx_create ''Holder''"
      "PublicKey ''Holder+Mint''" sampleConnection custodyKey Map.empty] a e
  have r1: "validateAccountInitializationInstructions (sampleLibrary (tx_create ''Holder''))
       sampleConnection (tx_create ''Holder'') custodyKey Map.empty
     = (Inl (Error ''account already exists''), Map.empty)"
    by blast
  from validateAccountInitialization_marks_only_after_checks
    [of "sampleLibrary (tx_create ''Newcomer'')" "tx_create ''Newcomer''"
      "tx_create ''Newcomer''" "PublicKey ''Newcomer+Mint''" sampleConnection custodyKey
      Map.empty] p
  have r2: "validateAccountInitializationInstructions (sampleLibrary (tx_create ''Newcomer''))
       sampleConnection (tx_create ''Newcomer'') custodyKey Map.empty
     = (Inr (), Map.empty(account_cache_key (recentBlockhash (tx_create ''Newcomer''))
             (PublicKey ''Newcomer+Mint'') \<mapsto> CBool True))"
    by blast
  from r1 r2 k show ?thesis by simp
qed

section \<open>Properties of the orchestrators: the dedup key\<close>



















section \<open>Properties of the orchestrators: the cooldown\<close>









end
